theory Spec2Isabelle
  imports Complex_Main "HOL-Library.Word" "HOL-Library.List_Lexorder"
begin

section \<open>JavaScript values as dashboard.js uses them\<close>

text \<open>
  A JavaScript string is a sequence of 16-bit code units.  The default comparison of
  \<^verbatim>\<open>Array.prototype.sort\<close> orders strings lexicographically by code unit, which is the
  order of \<^theory_text>\<open>HOL-Library.List_Lexorder\<close> on lists of 16-bit words.  \<open>js\<close> turns an
  ASCII literal of the source into its code units.
\<close>

type_synonym jsstring = "16 word list"

definition js :: "string \<Rightarrow> jsstring" where
  "js s = map of_char s"

text \<open>
  The values a row of the JSON response can hold; \<open>undefined\<close>, the result of reading a
  property that is absent; and the built-in functions and objects that a property read
  can find on the prototype of a row, each identified by its name.  Numbers are the parsed
  numeric values; the script does no arithmetic on them and only tests them for
  truthiness.
\<close>

datatype jsval =
    JUndefined
  | JNull
  | JBool bool
  | JNum rat
  | JStr jsstring
  | JArr "jsval list"
  | JObj "(jsstring \<times> jsval) list"
  | JBuiltin jsstring

text \<open>
  A row is an object produced by \<^verbatim>\<open>r.json()\<close>: its own properties in property order.
  \<open>Object_keys\<close> is \<^verbatim>\<open>Object.keys(r)\<close>, the own property names.

  The prototype of such an object is \<^verbatim>\<open>Object.prototype\<close>.  \<open>Object_prototype\<close> lists the
  members every row inherits from it (ECMAScript, sections 20.1.3 and B.2.2): the
  constructor \<open>Object\<close>, the accessor \<open>__proto__\<close>, which yields the prototype itself, and
  the built-in methods.  \<open>get_prop r k\<close> is \<^verbatim>\<open>r[k]\<close> (and \<^verbatim>\<open>r.k\<close>): the own property if
  the row has one, else the inherited member, else \<open>undefined\<close>.
\<close>

type_synonym row = "(jsstring \<times> jsval) list"

definition Object_keys :: "row \<Rightarrow> jsstring list" where
  "Object_keys r = map fst r"

definition Object_prototype :: "(jsstring \<times> jsval) list" where
  "Object_prototype =
     (js ''constructor'', JBuiltin (js ''Object''))
     # (js ''__proto__'', JBuiltin (js ''Object.prototype''))
     # map (\<lambda>n. (js n, JBuiltin (js (''Object.prototype.'' @ n))))
         [''__defineGetter__'', ''__defineSetter__'', ''__lookupGetter__'',
          ''__lookupSetter__'', ''hasOwnProperty'', ''isPrototypeOf'',
          ''propertyIsEnumerable'', ''toLocaleString'', ''toString'', ''valueOf'']"

definition get_prop :: "row \<Rightarrow> jsstring \<Rightarrow> jsval" where
  "get_prop r k =
     (case map_of r k of
        Some v \<Rightarrow> v
      | None \<Rightarrow> (case map_of Object_prototype k of None \<Rightarrow> JUndefined | Some v \<Rightarrow> v))"

fun truthy :: "jsval \<Rightarrow> bool" where
  "truthy JUndefined = False"
| "truthy JNull = False"
| "truthy (JBool b) = b"
| "truthy (JNum n) = (n \<noteq> 0)"
| "truthy (JStr s) = (s \<noteq> [])"
| "truthy (JArr vs) = True"
| "truthy (JObj ps) = True"
| "truthy (JBuiltin n) = True"

text \<open>\<^verbatim>\<open>a || b\<close> on values, and on an optional string with a string or \<open>null\<close> default.\<close>

definition js_or :: "jsval \<Rightarrow> jsval \<Rightarrow> jsval" where
  "js_or a b = (if truthy a then a else b)"

definition or_null :: "jsstring option \<Rightarrow> jsstring option" where
  "or_null v = (case v of None \<Rightarrow> None | Some t \<Rightarrow> if t = [] then None else Some t)"

definition or_str :: "jsstring option \<Rightarrow> jsstring \<Rightarrow> jsstring" where
  "or_str v d = (case or_null v of None \<Rightarrow> d | Some t \<Rightarrow> t)"

text \<open>
  A JavaScript \<open>Set\<close> of strings: its elements in insertion order, each once.
  \<open>Set_add\<close> is \<^verbatim>\<open>s.add(k)\<close>, \<open>new_Set\<close> is \<^verbatim>\<open>new Set(iterable)\<close>, \<open>Set_has\<close> is
  \<^verbatim>\<open>s.has(k)\<close>; \<^verbatim>\<open>Array.from(s)\<close> is the list itself.
\<close>

type_synonym jsset = "jsstring list"

definition Set_add :: "jsstring \<Rightarrow> jsset \<Rightarrow> jsset" where
  "Set_add k s = (if k \<in> set s then s else s @ [k])"

definition new_Set :: "jsstring list \<Rightarrow> jsset" where
  "new_Set xs = fold Set_add xs []"

definition Set_has :: "jsset \<Rightarrow> jsstring \<Rightarrow> bool" where
  "Set_has s k = (k \<in> set s)"

section \<open>Series keys (loadSales, lines 104-110)\<close>

text \<open>
  The loop \<^verbatim>\<open>rows.forEach(r => Object.keys(r).forEach(k => { if (...) setKeys.add(k) }))\<close>
  followed by \<^verbatim>\<open>Array.from(setKeys).sort()\<close>.
\<close>

definition add_key :: "jsstring \<Rightarrow> jsset \<Rightarrow> jsset" where
  "add_key k setKeys =
     (if k \<noteq> js ''date'' \<and> k \<noteq> js ''total'' \<and> k \<noteq> js ''orders_total''
         \<and> k \<noteq> js ''units_total'' \<and> k \<noteq> js ''sales_total''
      then Set_add k setKeys else setKeys)"

definition collect_keys :: "row list \<Rightarrow> jsset" where
  "collect_keys rws = fold (\<lambda>r setKeys. fold add_key (Object_keys r) setKeys) rws []"

definition derive_seriesKeys :: "row list \<Rightarrow> jsstring list" where
  "derive_seriesKeys rws = sort (collect_keys rws)"

text \<open>
  The four reserved aggregate names of the specification's glossary, for stating what
  the derivation excludes.
\<close>

definition reserved_names :: "jsstring list" where
  "reserved_names = [js ''total'', js ''orders_total'', js ''units_total'', js ''sales_total'']"

section \<open>The chart description (render, lines 61-93)\<close>

record trace =
  tr_x :: "jsval list"
  tr_y :: "jsval list"
  tr_type :: jsstring
  tr_mode :: "jsstring option"
  tr_name :: jsstring
  tr_hovertemplate :: "jsstring option"
  tr_yaxis :: "jsstring option"

record layout =
  la_title :: jsstring
  la_barmode :: jsstring
  la_xaxis_title :: jsstring
  la_xaxis_type :: jsstring
  la_yaxis_title :: jsstring
  la_yaxis2_title :: jsstring
  la_yaxis2_overlaying :: jsstring
  la_yaxis2_side :: jsstring
  la_yaxis2_showgrid :: bool
  la_margin :: "nat \<times> nat \<times> nat \<times> nat"

record chart =
  ch_traces :: "trace list"
  ch_layout :: layout

definition hovertemplate :: "jsstring \<Rightarrow> jsstring" where
  "hovertemplate k = js ''%{x}<br>'' @ k @ js '': %{y}<extra></extra>''"

definition bar_trace :: "row list \<Rightarrow> jsstring \<Rightarrow> trace" where
  "bar_trace rws k =
     \<lparr>tr_x = map (\<lambda>r. get_prop r (js ''date'')) rws,
      tr_y = map (\<lambda>r. js_or (get_prop r k) (JNum 0)) rws,
      tr_type = js ''bar'', tr_mode = None, tr_name = k,
      tr_hovertemplate = Some (hovertemplate k), tr_yaxis = None\<rparr>"

definition line_trace :: "row list \<Rightarrow> jsstring \<Rightarrow> trace" where
  "line_trace rws k =
     \<lparr>tr_x = map (\<lambda>r. get_prop r (js ''date'')) rws,
      tr_y = map (\<lambda>r. js_or (get_prop r k) (JNum 0)) rws,
      tr_type = js ''scatter'', tr_mode = Some (js ''lines+markers''), tr_name = k,
      tr_hovertemplate = Some (hovertemplate k), tr_yaxis = None\<rparr>"

definition orders_trace :: "row list \<Rightarrow> trace" where
  "orders_trace rws =
     \<lparr>tr_x = map (\<lambda>r. get_prop r (js ''date'')) rws,
      tr_y = map (\<lambda>r. js_or (get_prop r (js ''orders_total'')) (JNum 0)) rws,
      tr_type = js ''scatter'', tr_mode = Some (js ''lines+markers''), tr_name = js ''Orders'',
      tr_hovertemplate = None, tr_yaxis = Some (js ''y2'')\<rparr>"

text \<open>
  The body of \<open>render\<close> after \<open>refreshSelected()\<close>, as a function of the variables it
  reads: \<open>rows\<close>, \<open>seriesKeys\<close>, \<open>selected\<close>, the chart type and the show-orders box.
\<close>

definition render_traces ::
    "row list \<Rightarrow> jsstring list \<Rightarrow> jsset \<Rightarrow> jsstring \<Rightarrow> bool \<Rightarrow> trace list" where
  "render_traces rws skeys sel chartv show_orders =
     (let keys = filter (\<lambda>k. Set_has sel k) skeys;
          traces = (if chartv = js ''bar'' then map (bar_trace rws) keys
                    else map (line_trace rws) keys)
      in if show_orders then traces @ [orders_trace rws] else traces)"

definition render_layout :: "jsstring \<Rightarrow> jsstring option \<Rightarrow> layout" where
  "render_layout metricv cur =
     \<lparr>la_title = js ''Daily Product Mix (''
          @ (if metricv = js ''sales'' then js ''Sales $'' else js ''Units'') @ js '')'',
      la_barmode = js ''stack'',
      la_xaxis_title = js ''Date'', la_xaxis_type = js ''category'',
      la_yaxis_title = (if metricv = js ''sales''
          then js ''Sales ('' @ or_str cur (js ''USD'') @ js '')'' else js ''Units''),
      la_yaxis2_title = js ''Orders'', la_yaxis2_overlaying = js ''y'',
      la_yaxis2_side = js ''right'', la_yaxis2_showgrid = False,
      la_margin = (40, 60, 60, 60)\<rparr>"

text \<open>
  A product trace is one pushed by the loop over the selected keys; the Orders trace is
  the one bound to the secondary axis \<open>y2\<close>.
\<close>

definition is_product :: "trace \<Rightarrow> bool" where
  "is_product t = (tr_yaxis t = None)"

text \<open>
  The row field a trace takes its values from, and the trace pushed for a key under
  either chart type, for stating properties of the trace list.
\<close>

definition trace_source :: "trace \<Rightarrow> jsstring" where
  "trace_source t = (if is_product t then tr_name t else js ''orders_total'')"

definition product_trace :: "jsstring \<Rightarrow> row list \<Rightarrow> jsstring \<Rightarrow> trace" where
  "product_trace chartv rws k =
     (if chartv = js ''bar'' then bar_trace rws k else line_trace rws k)"

section \<open>The page state\<close>

text \<open>
  The closure variables of the script (\<open>shop\<close>, \<open>rows\<close>, \<open>seriesKeys\<close>, \<open>selected\<close>,
  \<open>currency\<close>), the form controls it reads, the parts of the document it writes (status
  line, filter card, chips, plot), the key list captured by the handlers of the All and
  None buttons, the requests handed to \<open>fetch\<close> so far, and the suspended \<open>loadSales\<close>
  calls waiting for their response, each with the grouping \<open>gb\<close> it captured.
\<close>

record chip =
  chip_key :: jsstring
  chip_checked :: bool

text \<open>
  The errors that reach the \<open>catch\<close> of \<open>loadSales\<close>: the one \<open>jget\<close> throws on a
  non-success response (message \<^verbatim>\<open>HTTP ${r.status}: ${await r.text()}\<close>), a rejecting
  \<open>fetch\<close>, a rejecting \<^verbatim>\<open>r.json()\<close>.  The texts of the status line: \<^verbatim>\<open>Loading\<close> \<dots>,
  \<^verbatim>\<open>Loaded ${rows.length} days\<close> \<bullet> \<^verbatim>\<open>series=${seriesKeys.length}\<close> \<bullet> \<^verbatim>\<open>tz=${res.tz || "?"}\<close>,
  \<^verbatim>\<open>Load failed: ${e.message}\<close> and \<^verbatim>\<open>Add ?shop=your-store.myshopify.com\<close>;
  \<open>status_err\<close> is the flag that picks the colour.  A request is the URL of
  \<^verbatim>\<open>/api/sales\<close> with its five parameters.
\<close>

datatype error =
    HTTP_error nat jsstring
  | Fetch_rejected jsstring
  | Json_rejected jsstring

datatype status_msg =
    Loading
  | Loaded nat nat jsstring
  | Load_failed error
  | Add_shop

record request =
  req_shop :: jsstring
  req_start_date :: jsstring
  req_end_date :: jsstring
  req_group_by :: jsstring
  req_metric :: jsstring

record state =
  shop :: jsstring
  shop_pill :: jsstring
  start_value :: jsstring
  end_value :: jsstring
  groupBy_value :: jsstring
  metric_value :: jsstring
  chartType_value :: jsstring
  showOrders_checked :: bool
  status_text :: status_msg
  status_err :: bool
  typeFilters_hide :: bool
  chips :: "chip list"
  btn_keys :: "jsstring list option"
  rows :: "row list"
  seriesKeys :: "jsstring list"
  selected :: jsset
  currency :: "jsstring option"
  plot :: "chart option"
  requests :: "request list"
  pending :: "jsstring list"

definition setStatus :: "status_msg \<Rightarrow> bool \<Rightarrow> state \<Rightarrow> state" where
  "setStatus msg err s = s\<lparr>status_text := msg, status_err := err\<rparr>"

section \<open>The response of the backend (jget, lines 33-37)\<close>

text \<open>
  \<open>fetch\<close> either rejects (transport failure) or resolves to a response.  The body of a
  response parses to an object of the shape of the backend interface, with optional
  \<open>rows\<close> (an array of row objects), \<open>currency\<close> and \<open>tz\<close> (strings), or \<^verbatim>\<open>r.json()\<close>
  rejects (\<open>resp_json = None\<close>).
\<close>

record api_result =
  res_rows :: "row list option"
  res_currency :: "jsstring option"
  res_tz :: "jsstring option"

record response =
  resp_ok :: bool
  resp_status :: nat
  resp_text :: jsstring
  resp_json :: "api_result option"

datatype fetch_outcome = Rejected jsstring | Resolved response

definition jget :: "fetch_outcome \<Rightarrow> error + api_result" where
  "jget fo =
     (case fo of
        Rejected cause \<Rightarrow> Inl (Fetch_rejected cause)
      | Resolved r \<Rightarrow>
          if \<not> resp_ok r then Inl (HTTP_error (resp_status r) (resp_text r))
          else (case resp_json r of
                  None \<Rightarrow> Inl (Json_rejected (resp_text r))
                | Some res \<Rightarrow> Inr res))"

section \<open>Filter chips (buildTypeFilters, refreshSelected, lines 39-59) and render\<close>

definition refreshSelected :: "state \<Rightarrow> state" where
  "refreshSelected s =
     s\<lparr>selected := new_Set (map chip_key (filter chip_checked (chips s)))\<rparr>"

definition render :: "state \<Rightarrow> state" where
  "render s =
     (let s1 = refreshSelected s
      in s1\<lparr>plot := Some
           \<lparr>ch_traces = render_traces (rows s1) (seriesKeys s1) (selected s1)
                          (chartType_value s1) (showOrders_checked s1),
            ch_layout = render_layout (metric_value s1) (currency s1)\<rparr>\<rparr>)"

text \<open>
  \<open>buildTypeFilters keys\<close> empties the chip container, sets \<open>selected\<close>, creates one
  checked chip per key (the chip at position \<open>i\<close> has id \<open>pt_i\<close>) and installs the
  handlers of the two buttons, which capture \<open>keys\<close>.
\<close>

definition buildTypeFilters :: "jsstring list \<Rightarrow> state \<Rightarrow> state" where
  "buildTypeFilters keys s =
     s\<lparr>chips := map (\<lambda>k. \<lparr>chip_key = k, chip_checked = True\<rparr>) keys,
       selected := new_Set keys,
       btn_keys := Some keys\<rparr>"

text \<open>The change handler of chip \<open>i\<close>: the user flips the box, the listener is \<open>render\<close>.\<close>

definition chip_change :: "nat \<Rightarrow> state \<Rightarrow> state" where
  "chip_change i s =
     (if i < length (chips s)
      then render (s\<lparr>chips := (chips s)
             [i := (chips s ! i)\<lparr>chip_checked := \<not> chip_checked (chips s ! i)\<rparr>]\<rparr>)
      else s)"

text \<open>The handlers of the All and None buttons; before the first build they are not set.\<close>

definition btnAll_onclick :: "state \<Rightarrow> state" where
  "btnAll_onclick s =
     (case btn_keys s of
        None \<Rightarrow> s
      | Some keys \<Rightarrow>
          render (s\<lparr>chips := map (\<lambda>c. c\<lparr>chip_checked := True\<rparr>) (chips s),
                   selected := new_Set keys\<rparr>))"

definition btnNone_onclick :: "state \<Rightarrow> state" where
  "btnNone_onclick s =
     (case btn_keys s of
        None \<Rightarrow> s
      | Some keys \<Rightarrow>
          render (s\<lparr>chips := map (\<lambda>c. c\<lparr>chip_checked := False\<rparr>) (chips s),
                   selected := new_Set []\<rparr>))"

section \<open>Loading (loadSales, lines 95-120)\<close>

text \<open>
  \<open>loadSales\<close> runs up to its \<open>await\<close>: it sets the status, reads the controls and hands
  one request to \<open>fetch\<close>.  When the fetch settles, the call resumes with the grouping it
  read before: a failure of \<open>jget\<close> is caught and only reported; otherwise the statements
  up to the status line (\<open>loadSales_store\<close>) run, and then \<open>render()\<close>.
\<close>

definition loadSales_begin :: "state \<Rightarrow> state" where
  "loadSales_begin s =
     (let s1 = setStatus Loading False s;
          url = \<lparr>req_shop = shop s1, req_start_date = start_value s1,
                 req_end_date = end_value s1, req_group_by = groupBy_value s1,
                 req_metric = metric_value s1\<rparr>
      in s1\<lparr>requests := requests s1 @ [url], pending := pending s1 @ [groupBy_value s1]\<rparr>)"

definition loadSales_store :: "jsstring \<Rightarrow> api_result \<Rightarrow> state \<Rightarrow> state" where
  "loadSales_store gb res s =
     (let s1 = s\<lparr>rows := (case res_rows res of None \<Rightarrow> [] | Some rs \<Rightarrow> rs),
                 currency := or_null (res_currency res)\<rparr>;
          s2 = s1\<lparr>seriesKeys := derive_seriesKeys (rows s1)\<rparr>;
          s3 = (if gb = js ''product_type''
                then buildTypeFilters (seriesKeys s2) (s2\<lparr>typeFilters_hide := False\<rparr>)
                else s2\<lparr>typeFilters_hide := True, selected := new_Set (seriesKeys s2)\<rparr>)
      in setStatus (Loaded (length (rows s3)) (length (seriesKeys s3))
                      (or_str (res_tz res) (js ''?''))) False s3)"

definition loadSales_resume :: "jsstring \<Rightarrow> fetch_outcome \<Rightarrow> state \<Rightarrow> state" where
  "loadSales_resume gb fo s =
     (case jget fo of
        Inl e \<Rightarrow> setStatus (Load_failed e) True s
      | Inr res \<Rightarrow> render (loadSales_store gb res s))"

text \<open>A load whose fetch settles before any other event is handled.\<close>

definition loadSales :: "fetch_outcome \<Rightarrow> state \<Rightarrow> state" where
  "loadSales fo s =
     (let s1 = loadSales_begin s
      in loadSales_resume (groupBy_value s) fo (s1\<lparr>pending := butlast (pending s1)\<rparr>))"

text \<open>
  The failures of a load that the specification names: the fetch rejects, or the response
  has a non-success status.  \<open>failure_error\<close> is the error \<open>jget\<close> then throws.
\<close>

definition load_failure :: "fetch_outcome \<Rightarrow> bool" where
  "load_failure fo = (case fo of Rejected cause \<Rightarrow> True | Resolved r \<Rightarrow> \<not> resp_ok r)"

definition failure_error :: "fetch_outcome \<Rightarrow> error" where
  "failure_error fo =
     (case fo of Rejected cause \<Rightarrow> Fetch_rejected cause
      | Resolved r \<Rightarrow> HTTP_error (resp_status r) (resp_text r))"

section \<open>Start of the script and its events (lines 1-31, 122-132)\<close>

text \<open>
  What the script finds when it starts: the \<open>shop\<close> query parameter, the two default
  dates computed from the clock, and the initial values of the controls.

  Modelled from the spec: the markup of the page is not part of the sources.
  The filter registry holds one chip per series key, so the chip container starts empty,
  and the All and None buttons have no handler before \<open>buildTypeFilters\<close> installs one.
  The status line gets its first text from the script, on either branch of the last line.
\<close>

record page =
  qs_shop :: "jsstring option"
  startDef :: jsstring
  endDef :: jsstring
  page_groupBy :: jsstring
  page_metric :: jsstring
  page_chartType :: jsstring
  page_showOrders :: bool
  page_typeFilters_hide :: bool

definition boot :: "page \<Rightarrow> state" where
  "boot p =
     (let shopv = or_str (qs_shop p) [];
          s = \<lparr>shop = shopv,
               shop_pill = (if shopv \<noteq> [] then shopv else js ''(add ?shop='' @ [0x2026] @ js '')''),
               start_value = startDef p, end_value = endDef p,
               groupBy_value = page_groupBy p, metric_value = page_metric p,
               chartType_value = page_chartType p, showOrders_checked = page_showOrders p,
               status_text = Loading, status_err = False,
               typeFilters_hide = page_typeFilters_hide p,
               chips = [], btn_keys = None,
               rows = [], seriesKeys = [], selected = new_Set [], currency = None,
               plot = None, requests = [], pending = []\<rparr>
      in if shopv \<noteq> [] then loadSales_begin s else setStatus Add_shop True s)"

datatype event =
    Click_btnLoadSales
  | Change_chartType jsstring
  | Change_metric jsstring
  | Change_groupBy jsstring
  | Change_showOrders bool
  | Change_start jsstring
  | Change_end jsstring
  | Change_chip nat
  | Click_btnAll
  | Click_btnNone
  | Fetch_settled nat fetch_outcome

fun step :: "event \<Rightarrow> state \<Rightarrow> state" where
  "step Click_btnLoadSales s = loadSales_begin s"
| "step (Change_chartType v) s = render (s\<lparr>chartType_value := v\<rparr>)"
| "step (Change_metric v) s = loadSales_begin (s\<lparr>metric_value := v\<rparr>)"
| "step (Change_groupBy v) s = loadSales_begin (s\<lparr>groupBy_value := v\<rparr>)"
| "step (Change_showOrders b) s = render (s\<lparr>showOrders_checked := b\<rparr>)"
| "step (Change_start v) s = loadSales_begin (s\<lparr>start_value := v\<rparr>)"
| "step (Change_end v) s = loadSales_begin (s\<lparr>end_value := v\<rparr>)"
| "step (Change_chip i) s = chip_change i s"
| "step Click_btnAll s = btnAll_onclick s"
| "step Click_btnNone s = btnNone_onclick s"
| "step (Fetch_settled i fo) s =
     (if i < length (pending s)
      then loadSales_resume (pending s ! i) fo
             (s\<lparr>pending := take i (pending s) @ drop (Suc i) (pending s)\<rparr>)
      else s)"

text \<open>
  Modelled from the spec: the stylesheet and the markup of the page are not part
  of the sources.  The filter surface (chips, All, None) is hidden while the filter card
  carries the class \<open>hide\<close>, and a hidden control receives no user event; a chip event
  needs its chip, a settled fetch a suspended call.
\<close>

fun enabled :: "event \<Rightarrow> state \<Rightarrow> bool" where
  "enabled (Change_chip i) s = (\<not> typeFilters_hide s \<and> i < length (chips s))"
| "enabled Click_btnAll s = (\<not> typeFilters_hide s)"
| "enabled Click_btnNone s = (\<not> typeFilters_hide s)"
| "enabled (Fetch_settled i fo) s = (i < length (pending s))"
| "enabled e s = True"

fun run :: "event list \<Rightarrow> state \<Rightarrow> state" where
  "run [] s = s"
| "run (e # es) s = run es (step e s)"

inductive reachable :: "state \<Rightarrow> bool" where
  reach_boot: "reachable (boot p)"
| reach_step: "reachable s \<Longrightarrow> enabled e s \<Longrightarrow> reachable (step e s)"

fun run_enabled :: "event list \<Rightarrow> state \<Rightarrow> bool" where
  "run_enabled [] s = True"
| "run_enabled (e # es) s = (enabled e s \<and> run_enabled es (step e s))"

text \<open>
  The events that operate the filter surface: a chip toggle, All, None, and the settling
  of a successful load that resumes under the categorical grouping, which rebuilds the
  chips.  While the filter card is shown, the chips are those of the current series keys,
  the handlers of All and None (if set) captured these keys, and the selection lies
  within them.
\<close>

fun filter_operation :: "event \<Rightarrow> state \<Rightarrow> bool" where
  "filter_operation (Change_chip i) s = True"
| "filter_operation Click_btnAll s = True"
| "filter_operation Click_btnNone s = True"
| "filter_operation (Fetch_settled i fo) s =
     (pending s ! i = js ''product_type''
      \<and> (case jget fo of Inl e \<Rightarrow> False | Inr res \<Rightarrow> True))"
| "filter_operation e s = False"

definition filters_in_sync :: "state \<Rightarrow> bool" where
  "filters_in_sync s =
     (\<not> typeFilters_hide s \<longrightarrow>
        map chip_key (chips s) = seriesKeys s
        \<and> (btn_keys s = None \<or> btn_keys s = Some (seriesKeys s))
        \<and> set (selected s) \<subseteq> set (seriesKeys s))"



definition product_values :: "state \<Rightarrow> jsval list list option" where
  "product_values s =
     map_option (\<lambda>c. map tr_y (filter is_product (ch_traces c))) (plot s)"


definition product_names :: "state \<Rightarrow> jsstring list option" where
  "product_names s =
     map_option (\<lambda>c. map tr_name (filter is_product (ch_traces c))) (plot s)"

section \<open>Example inputs\<close>

text \<open>
  Scenario A of the specification: two days, \<open>B\<close> absent on the second.  A successful
  response carrying given rows, a response with status 500, and a page with a given
  \<open>shop\<close> parameter.
\<close>

definition scenario_rows :: "row list" where
  "scenario_rows =
     [[(js ''date'', JStr (js ''2024-01-01'')), (js ''A'', JNum 5), (js ''B'', JNum 2),
       (js ''orders_total'', JNum 3)],
      [(js ''date'', JStr (js ''2024-01-02'')), (js ''A'', JNum 0),
       (js ''orders_total'', JNum 1)]]"

definition ok_response :: "row list \<Rightarrow> fetch_outcome" where
  "ok_response rws =
     Resolved \<lparr>resp_ok = True, resp_status = 200, resp_text = [],
       resp_json = Some \<lparr>res_rows = Some rws, res_currency = Some (js ''USD''),
                          res_tz = Some (js ''UTC'')\<rparr>\<rparr>"

definition error_response :: fetch_outcome where
  "error_response =
     Resolved \<lparr>resp_ok = False, resp_status = 500, resp_text = js ''boom'',
       resp_json = None\<rparr>"

definition example_page :: "jsstring option \<Rightarrow> page" where
  "example_page sh =
     \<lparr>qs_shop = sh, startDef = js ''2024-01-01'', endDef = js ''2024-01-14'',
      page_groupBy = js ''product_type'', page_metric = js ''sales'',
      page_chartType = js ''bar'', page_showOrders = True,
      page_typeFilters_hide = True\<rparr>"

text \<open>
  Scenario C of the specification: a categorical load with keys \<open>A\<close>, \<open>B\<close>, \<open>C\<close>, after
  which the user unchecks \<open>B\<close> and \<open>C\<close>; the next response has the keys \<open>A\<close> and \<open>D\<close>.
\<close>

definition rows_ABC :: "row list" where
  "rows_ABC =
     [[(js ''date'', JStr (js ''2024-01-01'')), (js ''C'', JNum 3), (js ''A'', JNum 1),
       (js ''B'', JNum 2)]]"

definition rows_AD :: "row list" where
  "rows_AD =
     [[(js ''date'', JStr (js ''2024-01-02'')), (js ''D'', JNum 4), (js ''A'', JNum 1)]]"

definition partial_state :: state where
  "partial_state =
     run [Fetch_settled 0 (ok_response rows_ABC), Change_chip 1, Change_chip 2]
       (boot (example_page (Some (js ''s.myshopify.com''))))"

text \<open>
  A categorical load of Scenario A, the user unchecks \<open>B\<close>, then switches the grouping
  to another dimension and the same rows arrive again.
\<close>

definition leftover_state :: state where
  "leftover_state =
     run [Fetch_settled 0 (ok_response scenario_rows), Change_chip 1,
          Change_groupBy (js ''day''), Fetch_settled 0 (ok_response scenario_rows)]
       (boot (example_page (Some (js ''s.myshopify.com''))))"



text \<open>
  A response in which one product type is named \<open>constructor\<close> and has sales on the first
  day only, loaded under the categorical grouping.
\<close>

definition proto_rows :: "row list" where
  "proto_rows =
     [[(js ''date'', JStr (js ''2024-01-01'')), (js ''constructor'', JNum 5)],
      [(js ''date'', JStr (js ''2024-01-02''))]]"

definition proto_state :: state where
  "proto_state =
     step (Fetch_settled 0 (ok_response proto_rows))
       (boot (example_page (Some (js ''s.myshopify.com''))))"

text \<open>The page opened without a \<open>shop\<close> parameter.\<close>

definition unconfigured_state :: state where
  "unconfigured_state = boot (example_page None)"

text \<open>
  The states in which \<open>loadSales\<close> calls \<open>render()\<close> when the first response, with the
  rows of Scenario A, arrives: on a page whose grouping is the categorical one, and on a
  page with another grouping.
\<close>

definition scenario_result :: api_result where
  "scenario_result =
     \<lparr>res_rows = Some scenario_rows, res_currency = Some (js ''USD''),
      res_tz = Some (js ''UTC'')\<rparr>"

definition other_page :: page where
  "other_page = (example_page (Some (js ''s.myshopify.com'')))\<lparr>page_groupBy := js ''day''\<rparr>"

definition store_categorical :: state where
  "store_categorical =
     loadSales_store (js ''product_type'') scenario_result
       ((boot (example_page (Some (js ''s.myshopify.com''))))\<lparr>pending := []\<rparr>)"

definition store_other :: state where
  "store_other =
     loadSales_store (js ''day'') scenario_result ((boot other_page)\<lparr>pending := []\<rparr>)"

section \<open>Sets\<close>

lemma set_fold_Set_add: "set (fold Set_add xs acc) = set acc \<union> set xs"
  by (induction xs arbitrary: acc) (auto simp: Set_add_def)

lemma distinct_fold_Set_add: "distinct acc \<Longrightarrow> distinct (fold Set_add xs acc)"
  by (induction xs arbitrary: acc) (auto simp: Set_add_def)

lemma set_new_Set: "set (new_Set xs) = set xs"
  by (simp add: new_Set_def set_fold_Set_add)

lemma distinct_new_Set: "distinct (new_Set xs)"
  by (simp add: new_Set_def distinct_fold_Set_add)

lemma Set_has_new_Set: "Set_has (new_Set xs) k = (k \<in> set xs)"
  by (simp add: Set_has_def set_new_Set)

section \<open>The derived series keys\<close>

lemma add_key_cases:
  "add_key k acc = (if k \<notin> set (js ''date'' # reserved_names) then Set_add k acc else acc)"
  by (auto simp: add_key_def reserved_names_def)

lemma set_fold_add_key:
  "set (fold add_key ks acc) = set acc \<union> (set ks - set (js ''date'' # reserved_names))"
  by (induction ks arbitrary: acc) (auto simp: add_key_cases Set_add_def)

lemma distinct_fold_add_key: "distinct acc \<Longrightarrow> distinct (fold add_key ks acc)"
  by (induction ks arbitrary: acc) (auto simp: add_key_cases Set_add_def)

lemma set_fold_rows:
  "set (fold (\<lambda>r setKeys. fold add_key (Object_keys r) setKeys) rws acc)
     = set acc \<union> ((\<Union>r\<in>set rws. set (Object_keys r)) - set (js ''date'' # reserved_names))"
  by (induction rws arbitrary: acc) (auto simp: set_fold_add_key)

lemma distinct_fold_rows:
  "distinct acc \<Longrightarrow>
   distinct (fold (\<lambda>r setKeys. fold add_key (Object_keys r) setKeys) rws acc)"
  by (induction rws arbitrary: acc) (auto simp: distinct_fold_add_key)

lemma set_derive_seriesKeys:
  "set (derive_seriesKeys rws)
     = (\<Union>r\<in>set rws. set (Object_keys r)) - set (js ''date'' # reserved_names)"
  by (simp add: derive_seriesKeys_def collect_keys_def set_fold_rows)

lemma distinct_derive_seriesKeys: "distinct (derive_seriesKeys rws)"
  by (simp add: derive_seriesKeys_def collect_keys_def distinct_fold_rows)

lemma sorted_derive_seriesKeys: "sorted (derive_seriesKeys rws)"
  by (simp add: derive_seriesKeys_def)

lemma seriesKeys_loadSales_resume:
  "jget fo = Inr res \<Longrightarrow>
   seriesKeys (loadSales_resume gb fo s)
     = derive_seriesKeys (case res_rows res of None \<Rightarrow> [] | Some rs \<Rightarrow> rs)"
  by (simp add: loadSales_resume_def loadSales_store_def Let_def render_def
      refreshSelected_def setStatus_def buildTypeFilters_def)

lemmas eval_keys =
  derive_seriesKeys_def collect_keys_def add_key_def Set_add_def Object_keys_def
  reserved_names_def js_def

lemma scenario_keys: "derive_seriesKeys scenario_rows = [js ''A'', js ''B'']"
  by (simp add: scenario_rows_def eval_keys)

text \<open>
  C2 (as amended).  For every list of rows the derived key list contains none of the
  four reserved names, has no duplicates and is sorted ascending; it holds exactly the
  field names seen in the rows other than \<open>date\<close> and the four reserved names; and after
  a successful load the stored key list is the one derived from the rows of the response,
  whatever the state was before.
\<close>

theorem derive_seriesKeys_spec:
  "set (derive_seriesKeys rws) \<inter> set reserved_names = {}
   \<and> distinct (derive_seriesKeys rws)
   \<and> sorted (derive_seriesKeys rws)
   \<and> set (derive_seriesKeys rws)
       = (\<Union>r\<in>set rws. set (Object_keys r)) - set (js ''date'' # reserved_names)
   \<and> (jget fo = Inr res \<longrightarrow>
        seriesKeys (loadSales_resume gb fo s)
          = derive_seriesKeys (case res_rows res of None \<Rightarrow> [] | Some rs \<Rightarrow> rs))"
proof -
  have "set (derive_seriesKeys rws) \<inter> set reserved_names = {}"
    by (auto simp: set_derive_seriesKeys)
  then show ?thesis
    by (simp only: distinct_derive_seriesKeys sorted_derive_seriesKeys
        set_derive_seriesKeys seriesKeys_loadSales_resume simp_thms)
       (simp add: seriesKeys_loadSales_resume)
qed

theorem derive_seriesKeys_spec_witness:
  "jget (ok_response scenario_rows)
     = Inr \<lparr>res_rows = Some scenario_rows, res_currency = Some (js ''USD''),
            res_tz = Some (js ''UTC'')\<rparr>
   \<and> seriesKeys (loadSales_resume (js ''date'') (ok_response scenario_rows)
        (boot (example_page None))) = [js ''A'', js ''B'']
   \<and> distinct [js ''A'', js ''B''] \<and> sorted [js ''A'', js ''B'']"
  using derive_seriesKeys_spec [of scenario_rows "ok_response scenario_rows"
      "\<lparr>res_rows = Some scenario_rows, res_currency = Some (js ''USD''),
        res_tz = Some (js ''UTC'')\<rparr>" "js ''date''" "boot (example_page None)"]
  by (simp add: scenario_keys jget_def ok_response_def)

text \<open>
  C2 (as stated) fails: \<open>date\<close> is a field name of the row, it is not one of the four
  reserved names, and it is not among the derived keys.
\<close>

theorem seriesKeys_date_counterexample:
  "js ''date'' \<in> set (Object_keys [(js ''date'', JStr (js ''2024-01-01'')), (js ''A'', JNum 5)])
   \<and> js ''date'' \<notin> set reserved_names
   \<and> js ''date'' \<notin> set (derive_seriesKeys
         [[(js ''date'', JStr (js ''2024-01-01'')), (js ''A'', JNum 5)]])"
  by (simp add: eval_keys)

text \<open>
  C10.  For every list of rows, the field name \<open>date\<close> is not among the derived series
  keys.
\<close>

theorem seriesKeys_excludes_date: "js ''date'' \<notin> set (derive_seriesKeys rws)"
  by (simp add: set_derive_seriesKeys)

section \<open>The trace list\<close>

lemma is_product_simps:
  "is_product (bar_trace rws k)" "is_product (line_trace rws k)" "\<not> is_product (orders_trace rws)"
  by (simp_all add: is_product_def bar_trace_def line_trace_def orders_trace_def)

lemma tr_name_simps:
  "tr_name (bar_trace rws k) = k" "tr_name (line_trace rws k) = k"
  by (simp_all add: bar_trace_def line_trace_def)

lemma tr_y_simps:
  "tr_y (bar_trace rws k) = map (\<lambda>r. js_or (get_prop r k) (JNum 0)) rws"
  "tr_y (line_trace rws k) = map (\<lambda>r. js_or (get_prop r k) (JNum 0)) rws"
  "tr_y (orders_trace rws) = map (\<lambda>r. js_or (get_prop r (js ''orders_total'')) (JNum 0)) rws"
  by (simp_all add: bar_trace_def line_trace_def orders_trace_def)

lemma render_traces_eq:
  "render_traces rws skeys sel chartv so
     = map (product_trace chartv rws) (filter (\<lambda>k. k \<in> set sel) skeys)
       @ (if so then [orders_trace rws] else [])"
  by (simp add: render_traces_def Let_def Set_has_def product_trace_def)

lemma product_trace_simps:
  "is_product (product_trace chartv rws k)"
  "tr_name (product_trace chartv rws k) = k"
  "tr_y (product_trace chartv rws k) = map (\<lambda>r. js_or (get_prop r k) (JNum 0)) rws"
  by (simp_all add: product_trace_def is_product_simps tr_name_simps tr_y_simps)





lemma selected_render:
  "selected (render s) = new_Set (map chip_key (filter chip_checked (chips s)))"
  by (simp add: render_def refreshSelected_def Let_def)


lemma scenario_traces:
  "map (\<lambda>t. (tr_name t, tr_y t, tr_yaxis t))
     (render_traces scenario_rows [js ''A'', js ''B''] (new_Set [js ''A'', js ''B''])
        (js ''bar'') True)
   = [(js ''A'', [JNum 5, JNum 0], None), (js ''B'', [JNum 2, JNum 0], None),
      (js ''Orders'', [JNum 3, JNum 1], Some (js ''y2''))]"
  by code_simp


lemma partial_state_seriesKeys: "seriesKeys partial_state = [js ''A'', js ''B'', js ''C'']"
  by code_simp








section \<open>The values of a trace\<close>

text \<open>
  Every trace has one value per row, in row order: the row's value for the trace's field,
  or \<open>0\<close> when that is falsy.  A row that has no such field of its own yields \<open>0\<close> when the
  name is not that of an inherited member.
\<close>

lemma trace_values:
  assumes "t \<in> set (render_traces rws skeys sel chartv so)"
  shows "tr_y t = map (\<lambda>r. js_or (get_prop r (trace_source t)) (JNum 0)) rws"
proof -
  from assms consider k where "t = product_trace chartv rws k" | "t = orders_trace rws"
    by (auto simp: render_traces_eq split: if_splits)
  then show ?thesis
    by cases (simp_all add: trace_source_def product_trace_simps is_product_simps tr_y_simps)
qed

lemma own_key_fill:
  assumes "k \<notin> set (Object_keys r)" and "k \<notin> fst ` set Object_prototype"
  shows "js_or (get_prop r k) (JNum 0) = JNum 0"
proof -
  from assms have "map_of r k = None" and "map_of Object_prototype k = None"
    by (simp_all add: Object_keys_def map_of_eq_None_iff)
  then show ?thesis by (simp add: get_prop_def js_or_def)
qed

lemma reachable_proto_state: "reachable proto_state"
  unfolding proto_state_def by (rule reach_step [OF reach_boot]) code_simp

lemma proto_state_seriesKeys: "seriesKeys proto_state = [js ''constructor'']"
  by code_simp

lemma proto_state_selected: "selected proto_state = [js ''constructor'']"
  by code_simp

lemma proto_state_lacks: "js ''constructor'' \<notin> set (Object_keys (rows proto_state ! 1))"
  by code_simp

lemma proto_state_values: "product_values proto_state = Some [[JNum 5, JBuiltin (js ''Object'')]]"
  by code_simp

text \<open>
  C3.  The claim fails on the code: after the load of \<open>proto_rows\<close> the series key
  \<open>constructor\<close> is selected and the second row lacks it, but the value of its trace at
  the second position is not \<open>0\<close>: \<^verbatim>\<open>r[k]\<close> finds the function \<open>Object\<close> that every row
  inherits, which is truthy, so \<^verbatim>\<open>r[k]||0\<close> keeps it.
\<close>

theorem inherited_member_not_filled:
  "reachable proto_state
   \<and> seriesKeys proto_state = [js ''constructor'']
   \<and> selected proto_state = [js ''constructor'']
   \<and> js ''constructor'' \<notin> set (Object_keys (rows proto_state ! 1))
   \<and> product_values proto_state = Some [[JNum 5, JBuiltin (js ''Object'')]]"
  by (rule conjI reachable_proto_state proto_state_seriesKeys proto_state_selected
      proto_state_lacks proto_state_values)+

section \<open>Rebuilding the filters, failing loads\<close>

lemma jget_failure: "load_failure fo \<Longrightarrow> jget fo = Inl (failure_error fo)"
  by (auto simp: load_failure_def failure_error_def jget_def split: fetch_outcome.splits)

lemma loadSales_resume_failure:
  "load_failure fo \<Longrightarrow> loadSales_resume gb fo s = setStatus (Load_failed (failure_error fo)) True s"
  by (simp add: loadSales_resume_def jget_failure)

lemma checked_buildTypeFilters:
  "map chip_key (filter chip_checked (chips (buildTypeFilters keys s))) = keys"
  by (simp add: buildTypeFilters_def filter_map o_def)

lemma chips_setStatus: "chips (setStatus m e s) = chips s"
  by (simp add: setStatus_def)

lemma loadSales_resume_categorical:
  assumes "jget fo = Inr res"
  shows "selected (loadSales_resume (js ''product_type'') fo s)
           = new_Set (derive_seriesKeys (case res_rows res of None \<Rightarrow> [] | Some rs \<Rightarrow> rs))"
  using assms
  by (simp add: loadSales_resume_def loadSales_store_def Let_def selected_render
      chips_setStatus checked_buildTypeFilters)

text \<open>
  C4.  For every key list and every state, \<open>buildTypeFilters\<close> leaves the selection equal
  to the key list as a set, with exactly those keys checked, so that the refresh of the
  following \<open>render\<close> keeps it; a successful load under the categorical grouping leaves
  the selection equal to the keys derived from the response, whatever it was before.
\<close>

theorem rebuild_resets_selection:
  "set (selected (buildTypeFilters keys s)) = set keys
   \<and> map chip_key (filter chip_checked (chips (buildTypeFilters keys s))) = keys
   \<and> set (selected (render (buildTypeFilters keys s))) = set keys
   \<and> (jget fo = Inr res \<longrightarrow>
        set (selected (loadSales_resume (js ''product_type'') fo s))
          = set (derive_seriesKeys (case res_rows res of None \<Rightarrow> [] | Some rs \<Rightarrow> rs)))"
proof -
  have "set (selected (buildTypeFilters keys s)) = set keys"
    by (simp add: buildTypeFilters_def set_new_Set)
  moreover have "set (selected (render (buildTypeFilters keys s))) = set keys"
    by (simp add: selected_render checked_buildTypeFilters set_new_Set)
  ultimately show ?thesis
    by (simp add: checked_buildTypeFilters loadSales_resume_categorical set_new_Set)
qed

lemma partial_state_selected: "selected partial_state = [js ''A'']"
  by code_simp

lemma partial_state_rows: "rows partial_state = rows_ABC"
  by code_simp

lemmas partial_state_fields = partial_state_selected partial_state_seriesKeys partial_state_rows

theorem rebuild_resets_selection_witness:
  "selected partial_state = [js ''A'']
   \<and> seriesKeys partial_state = [js ''A'', js ''B'', js ''C'']
   \<and> jget (ok_response rows_AD)
       = Inr \<lparr>res_rows = Some rows_AD, res_currency = Some (js ''USD''), res_tz = Some (js ''UTC'')\<rparr>
   \<and> set (selected (loadSales_resume (js ''product_type'') (ok_response rows_AD) partial_state))
       = {js ''A'', js ''D''}"
proof -
  have j: "jget (ok_response rows_AD)
       = Inr \<lparr>res_rows = Some rows_AD, res_currency = Some (js ''USD''), res_tz = Some (js ''UTC'')\<rparr>"
    by (simp add: jget_def ok_response_def)
  have k: "derive_seriesKeys rows_AD = [js ''A'', js ''D'']"
    by (simp add: rows_AD_def eval_keys)
  from rebuild_resets_selection [of "[]" partial_state "ok_response rows_AD"
      "\<lparr>res_rows = Some rows_AD, res_currency = Some (js ''USD''), res_tz = Some (js ''UTC'')\<rparr>"] j
  have "set (selected (loadSales_resume (js ''product_type'') (ok_response rows_AD) partial_state))
       = {js ''A'', js ''D''}"
    by (simp add: k)
  with j show ?thesis by (simp add: partial_state_fields)
qed

text \<open>
  C5.  For every load whose fetch rejects or whose response has a non-success status,
  \<open>rows\<close>, \<open>seriesKeys\<close> and \<open>selected\<close> are as before the load; apart from the request
  handed to \<open>fetch\<close>, the state differs from the one before only in the status line,
  which reports the failure.  The same holds for the resumed part of a load alone.
\<close>

theorem failed_load_keeps_state:
  assumes "load_failure fo"
  shows "rows (loadSales fo s) = rows s
         \<and> seriesKeys (loadSales fo s) = seriesKeys s
         \<and> selected (loadSales fo s) = selected s
         \<and> (loadSales fo s)\<lparr>status_text := status_text s, status_err := status_err s,
               requests := requests s\<rparr> = s
         \<and> status_text (loadSales fo s) = Load_failed (failure_error fo)
         \<and> status_err (loadSales fo s)
         \<and> loadSales_resume gb fo s = setStatus (Load_failed (failure_error fo)) True s"
  using assms
  by (simp add: loadSales_def Let_def loadSales_resume_failure loadSales_begin_def setStatus_def)

theorem failed_load_keeps_state_witness:
  "load_failure error_response
   \<and> rows (loadSales error_response partial_state) = rows_ABC
   \<and> seriesKeys (loadSales error_response partial_state) = [js ''A'', js ''B'', js ''C'']
   \<and> selected (loadSales error_response partial_state) = [js ''A'']
   \<and> status_text (loadSales error_response partial_state) = Load_failed (HTTP_error 500 (js ''boom''))"
proof -
  have f: "load_failure error_response" by (simp add: load_failure_def error_response_def)
  note r = partial_state_rows
  have e: "failure_error error_response = HTTP_error 500 (js ''boom'')"
    by (simp add: failure_error_def error_response_def)
  from failed_load_keeps_state [OF f, of partial_state] f r e show ?thesis
    by (simp add: partial_state_fields)
qed

section \<open>The filter surface in reachable states\<close>

lemma reachable_run: "reachable s \<Longrightarrow> run_enabled es s \<Longrightarrow> reachable (run es s)"
  by (induction es arbitrary: s) (auto intro: reach_step)

text \<open>What \<open>render\<close> and the start of a load leave alone.\<close>

lemma render_fields:
  "typeFilters_hide (render s) = typeFilters_hide s"
  "chips (render s) = chips s"
  "btn_keys (render s) = btn_keys s"
  "seriesKeys (render s) = seriesKeys s"
  "pending (render s) = pending s"
  by (simp_all add: render_def refreshSelected_def Let_def)

lemma set_checked_keys: "set (map chip_key (filter chip_checked cs)) \<subseteq> set (map chip_key cs)"
  by auto

lemma in_sync_render:
  assumes "\<not> typeFilters_hide s \<longrightarrow>
     map chip_key (chips s) = seriesKeys s \<and> (btn_keys s = None \<or> btn_keys s = Some (seriesKeys s))"
  shows "filters_in_sync (render s)"
proof -
  have sub: "set (selected (render s)) \<subseteq> set (map chip_key (chips s))"
    unfolding selected_render set_new_Set by (rule set_checked_keys)
  show ?thesis
    unfolding filters_in_sync_def render_fields
  proof (intro impI)
    assume "\<not> typeFilters_hide s"
    with assms have k: "map chip_key (chips s) = seriesKeys s"
      and b: "btn_keys s = None \<or> btn_keys s = Some (seriesKeys s)"
      by simp_all
    from sub have "set (selected (render s)) \<subseteq> set (seriesKeys s)"
      unfolding k .
    with k b show "map chip_key (chips s) = seriesKeys s
        \<and> (btn_keys s = None \<or> btn_keys s = Some (seriesKeys s))
        \<and> set (selected (render s)) \<subseteq> set (seriesKeys s)"
      by (simp only: simp_thms)
  qed
qed

lemma in_sync_loadSales_begin: "filters_in_sync (loadSales_begin s) = filters_in_sync s"
  by (simp add: filters_in_sync_def loadSales_begin_def setStatus_def Let_def)

lemma in_sync_loadSales_resume:
  assumes "filters_in_sync s"
  shows "filters_in_sync (loadSales_resume gb fo s)"
proof (cases "jget fo")
  case (Inl e)
  with assms show ?thesis
    by (simp add: loadSales_resume_def setStatus_def filters_in_sync_def)
next
  case (Inr res)
  have "filters_in_sync (render (loadSales_store gb res s))"
    by (rule in_sync_render)
       (simp add: loadSales_store_def Let_def setStatus_def buildTypeFilters_def o_def)
  with Inr show ?thesis by (simp add: loadSales_resume_def)
qed

lemma chip_keys_toggle:
  "i < length cs \<Longrightarrow>
   map chip_key (cs[i := (cs ! i)\<lparr>chip_checked := b\<rparr>]) = map chip_key cs"
  by (simp add: map_update list_update_same_conv)

lemma in_sync_chip_change:
  assumes "filters_in_sync s"
  shows "filters_in_sync (chip_change i s)"
proof (cases "i < length (chips s)")
  case True
  have "filters_in_sync (render (s\<lparr>chips := (chips s)
             [i := (chips s ! i)\<lparr>chip_checked := \<not> chip_checked (chips s ! i)\<rparr>]\<rparr>))"
    using assms True by (intro in_sync_render) (simp add: filters_in_sync_def chip_keys_toggle)
  with True show ?thesis by (simp add: chip_change_def)
next
  case False
  with assms show ?thesis by (simp add: chip_change_def)
qed

lemma in_sync_btnAll:
  assumes "filters_in_sync s"
  shows "filters_in_sync (btnAll_onclick s)"
proof (cases "btn_keys s")
  case None
  with assms show ?thesis by (simp add: btnAll_onclick_def)
next
  case (Some keys)
  have "filters_in_sync (render (s\<lparr>chips := map (\<lambda>c. c\<lparr>chip_checked := True\<rparr>) (chips s),
                   selected := new_Set keys\<rparr>))"
    using assms by (intro in_sync_render) (simp add: filters_in_sync_def o_def)
  with Some show ?thesis by (simp add: btnAll_onclick_def)
qed

lemma in_sync_btnNone:
  assumes "filters_in_sync s"
  shows "filters_in_sync (btnNone_onclick s)"
proof (cases "btn_keys s")
  case None
  with assms show ?thesis by (simp add: btnNone_onclick_def)
next
  case (Some keys)
  have "filters_in_sync (render (s\<lparr>chips := map (\<lambda>c. c\<lparr>chip_checked := False\<rparr>) (chips s),
                   selected := new_Set []\<rparr>))"
    using assms by (intro in_sync_render) (simp add: filters_in_sync_def o_def)
  with Some show ?thesis by (simp add: btnNone_onclick_def)
qed

lemma in_sync_step:
  assumes "filters_in_sync s"
  shows "filters_in_sync (step e s)"
proof (cases e)
  case Click_btnLoadSales
  with assms show ?thesis by (simp add: in_sync_loadSales_begin)
next
  case (Change_chartType v)
  have "filters_in_sync (render (s\<lparr>chartType_value := v\<rparr>))"
    using assms by (intro in_sync_render) (simp add: filters_in_sync_def)
  with Change_chartType show ?thesis by simp
next
  case (Change_metric v)
  with assms show ?thesis by (simp add: in_sync_loadSales_begin) (simp add: filters_in_sync_def)
next
  case (Change_groupBy v)
  with assms show ?thesis by (simp add: in_sync_loadSales_begin) (simp add: filters_in_sync_def)
next
  case (Change_showOrders b)
  have "filters_in_sync (render (s\<lparr>showOrders_checked := b\<rparr>))"
    using assms by (intro in_sync_render) (simp add: filters_in_sync_def)
  with Change_showOrders show ?thesis by simp
next
  case (Change_start v)
  with assms show ?thesis by (simp add: in_sync_loadSales_begin) (simp add: filters_in_sync_def)
next
  case (Change_end v)
  with assms show ?thesis by (simp add: in_sync_loadSales_begin) (simp add: filters_in_sync_def)
next
  case (Change_chip i)
  with assms show ?thesis by (simp add: in_sync_chip_change)
next
  case Click_btnAll
  with assms show ?thesis by (simp add: in_sync_btnAll)
next
  case Click_btnNone
  with assms show ?thesis by (simp add: in_sync_btnNone)
next
  case (Fetch_settled i fo)
  have "filters_in_sync (s\<lparr>pending := take i (pending s) @ drop (Suc i) (pending s)\<rparr>)"
    using assms by (simp add: filters_in_sync_def)
  then have "filters_in_sync (loadSales_resume (pending s ! i) fo
             (s\<lparr>pending := take i (pending s) @ drop (Suc i) (pending s)\<rparr>))"
    by (rule in_sync_loadSales_resume)
  with Fetch_settled assms show ?thesis by simp
qed

lemma in_sync_boot: "filters_in_sync (boot p)"
  by (simp add: boot_def Let_def in_sync_loadSales_begin)
     (simp add: filters_in_sync_def setStatus_def new_Set_def)

lemma reachable_in_sync: "reachable s \<Longrightarrow> filters_in_sync s"
  by (induction rule: reachable.induct) (simp_all add: in_sync_boot in_sync_step)

text \<open>
  C8.  In every state the page can reach, after every operation of the filter surface
  that can occur there (a rebuild by a categorical load, a chip toggle, All, None), the
  selection is a subset of the series keys.
\<close>

theorem filter_operations_keep_subset:
  assumes "reachable s" and "enabled e s" and "filter_operation e s"
  shows "set (selected (step e s)) \<subseteq> set (seriesKeys (step e s))"
proof -
  have r: "reachable (step e s)" using assms(1,2) by (rule reach_step)
  then have sync: "filters_in_sync (step e s)" by (rule reachable_in_sync)
  have "\<not> typeFilters_hide (step e s)"
  proof (cases e)
    case (Change_chip i)
    with assms(2) show ?thesis by (simp add: chip_change_def render_fields)
  next
    case Click_btnAll
    with assms(2) show ?thesis
      by (simp add: btnAll_onclick_def render_fields split: option.splits)
  next
    case Click_btnNone
    with assms(2) show ?thesis
      by (simp add: btnNone_onclick_def render_fields split: option.splits)
  next
    case (Fetch_settled i fo)
    with assms(2,3) show ?thesis
      by (auto simp: loadSales_resume_def loadSales_store_def Let_def render_fields
          setStatus_def buildTypeFilters_def split: sum.splits)
  qed (use assms(3) in simp_all)
  with sync show ?thesis by (simp add: filters_in_sync_def)
qed

lemma partial_state_run_enabled:
  "run_enabled [Fetch_settled 0 (ok_response rows_ABC), Change_chip 1, Change_chip 2]
       (boot (example_page (Some (js ''s.myshopify.com''))))"
  by code_simp

lemma reachable_partial_state: "reachable partial_state"
  unfolding partial_state_def by (rule reachable_run [OF reach_boot partial_state_run_enabled])

lemma partial_state_enabled: "enabled Click_btnAll partial_state"
  by code_simp

lemma partial_state_all_keys: "seriesKeys (step Click_btnAll partial_state) = [js ''A'', js ''B'', js ''C'']"
  by code_simp

lemma partial_state_all_selected: "selected (step Click_btnAll partial_state) = [js ''A'', js ''B'', js ''C'']"
  by code_simp

theorem filter_operations_keep_subset_witness:
  "reachable partial_state \<and> enabled Click_btnAll partial_state
   \<and> filter_operation Click_btnAll partial_state
   \<and> selected partial_state = [js ''A'']
   \<and> selected (step Click_btnAll partial_state) = [js ''A'', js ''B'', js ''C'']
   \<and> set (selected (step Click_btnAll partial_state))
       \<subseteq> set (seriesKeys (step Click_btnAll partial_state))"
proof -
  have f: "filter_operation Click_btnAll partial_state" by simp
  from filter_operations_keep_subset [OF reachable_partial_state partial_state_enabled f]
  show ?thesis
    using reachable_partial_state partial_state_enabled f partial_state_selected
      partial_state_all_selected
    by (simp only: simp_thms)
qed

section \<open>What render reads and writes\<close>

text \<open>
  C9 (as amended).  The chart that \<open>render\<close> plots is a function of the rows, the series
  keys, the keys of the checked chips, the metric, the chart type, the show-orders box and
  the currency: two states that agree on these get the same chart and the same selection.
  \<open>render\<close> stores the keys of the checked chips as the selection, and changes nothing
  but the selection and the plot.
\<close>

theorem render_inputs:
  assumes "rows s1 = rows s2" and "seriesKeys s1 = seriesKeys s2"
    and "map chip_key (filter chip_checked (chips s1)) = map chip_key (filter chip_checked (chips s2))"
    and "metric_value s1 = metric_value s2" and "chartType_value s1 = chartType_value s2"
    and "showOrders_checked s1 = showOrders_checked s2" and "currency s1 = currency s2"
  shows "plot (render s1) = plot (render s2)
         \<and> selected (render s1) = selected (render s2)
         \<and> selected (render s1) = new_Set (map chip_key (filter chip_checked (chips s1)))
         \<and> (render s1)\<lparr>selected := selected s1, plot := plot s1\<rparr> = s1"
  using assms by (simp add: render_def refreshSelected_def Let_def)

theorem render_inputs_witness:
  "rows partial_state = rows (partial_state\<lparr>selected := [], status_text := Add_shop\<rparr>)
   \<and> seriesKeys partial_state
       = seriesKeys (partial_state\<lparr>selected := [], status_text := Add_shop\<rparr>)
   \<and> chips partial_state = chips (partial_state\<lparr>selected := [], status_text := Add_shop\<rparr>)
   \<and> plot (render partial_state)
       = plot (render (partial_state\<lparr>selected := [], status_text := Add_shop\<rparr>))
   \<and> selected (render (partial_state\<lparr>selected := [], status_text := Add_shop\<rparr>))
       = selected (render partial_state)"
  using render_inputs [of partial_state "partial_state\<lparr>selected := [], status_text := Add_shop\<rparr>"]
  by simp

lemma store_same_inputs:
  "rows store_categorical = rows store_other"
  "seriesKeys store_categorical = seriesKeys store_other"
  "selected store_categorical = selected store_other"
  "metric_value store_categorical = metric_value store_other"
  "chartType_value store_categorical = chartType_value store_other"
  "showOrders_checked store_categorical = showOrders_checked store_other"
  "currency store_categorical = currency store_other"
  by code_simp+

lemma store_categorical_call:
  "step (Fetch_settled 0 (ok_response scenario_rows))
     (boot (example_page (Some (js ''s.myshopify.com'')))) = render store_categorical"
  by code_simp

lemma store_other_call:
  "step (Fetch_settled 0 (ok_response scenario_rows)) (boot other_page) = render store_other"
  by code_simp

lemma store_categorical_names:
  "product_names (render store_categorical) = Some [js ''A'', js ''B'']"
  by code_simp

lemma store_other_names: "product_names (render store_other) = Some []"
  by code_simp

lemma store_other_selected: "selected store_other = [js ''A'', js ''B'']"
  by code_simp

lemma store_other_render_selected: "selected (render store_other) = []"
  by code_simp

text \<open>
  C9 (as stated) fails.  The two states in which \<open>loadSales\<close> calls \<open>render\<close> on the first
  response agree on rows, series keys, selection, metric, chart type, show-orders flag and
  currency; the charts plotted differ (the product traces \<open>A\<close>, \<open>B\<close> in one, none in the
  other), and in the second \<open>render\<close> changes the selection.
\<close>

theorem render_reads_chips_counterexample:
  "step (Fetch_settled 0 (ok_response scenario_rows))
     (boot (example_page (Some (js ''s.myshopify.com'')))) = render store_categorical
   \<and> step (Fetch_settled 0 (ok_response scenario_rows)) (boot other_page) = render store_other
   \<and> rows store_categorical = rows store_other
   \<and> seriesKeys store_categorical = seriesKeys store_other
   \<and> selected store_categorical = selected store_other
   \<and> metric_value store_categorical = metric_value store_other
   \<and> chartType_value store_categorical = chartType_value store_other
   \<and> showOrders_checked store_categorical = showOrders_checked store_other
   \<and> currency store_categorical = currency store_other
   \<and> plot (render store_categorical) \<noteq> plot (render store_other)
   \<and> selected (render store_other) \<noteq> selected store_other"
proof -
  have "product_names (render store_categorical) \<noteq> product_names (render store_other)"
    by (simp add: store_categorical_names store_other_names)
  then have p: "plot (render store_categorical) \<noteq> plot (render store_other)"
    by (auto simp: product_names_def)
  have s: "selected (render store_other) \<noteq> selected store_other"
    by (simp add: store_other_selected store_other_render_selected)
  from p s show ?thesis
    by (simp only: store_same_inputs store_categorical_call store_other_call simp_thms)
qed

section \<open>Two defects\<close>

lemma leftover_run_enabled:
  "run_enabled [Fetch_settled 0 (ok_response scenario_rows), Change_chip 1,
          Change_groupBy (js ''day''), Fetch_settled 0 (ok_response scenario_rows)]
       (boot (example_page (Some (js ''s.myshopify.com''))))"
  by code_simp

lemma reachable_leftover_state: "reachable leftover_state"
  unfolding leftover_state_def by (rule reachable_run [OF reach_boot leftover_run_enabled])

lemma leftover_groupBy: "groupBy_value leftover_state = js ''day''"
  by code_simp

lemma leftover_hide: "typeFilters_hide leftover_state"
  by code_simp

lemma leftover_seriesKeys: "seriesKeys leftover_state = [js ''A'', js ''B'']"
  by code_simp

lemma leftover_names: "product_names leftover_state = Some [js ''A'']"
  by code_simp

text \<open>
  C6.  The claim fails on the code: in the reachable state \<open>leftover_state\<close> the grouping
  is not the categorical one, the filter card is hidden and the series keys are \<open>A\<close> and
  \<open>B\<close>, but the chart has the product trace \<open>A\<close> only, because \<open>render\<close> reads the
  selection back from the chip left unchecked by the earlier categorical load.
\<close>

theorem hidden_filter_leftover_chips:
  "reachable leftover_state
   \<and> groupBy_value leftover_state = js ''day''
   \<and> typeFilters_hide leftover_state
   \<and> seriesKeys leftover_state = [js ''A'', js ''B'']
   \<and> product_names leftover_state = Some [js ''A'']"
  by (rule conjI reachable_leftover_state leftover_groupBy leftover_hide leftover_seriesKeys
      leftover_names)+

lemma reachable_unconfigured_click: "reachable (step Click_btnLoadSales unconfigured_state)"
  unfolding unconfigured_state_def by (rule reach_step [OF reach_boot]) simp

lemma unconfigured_shop: "shop unconfigured_state = []"
  by code_simp

lemma unconfigured_requests: "requests unconfigured_state = []"
  by code_simp

lemma unconfigured_status: "status_text unconfigured_state = Add_shop"
  by code_simp

lemma unconfigured_click_requests:
  "requests (step Click_btnLoadSales unconfigured_state)
     = [\<lparr>req_shop = [], req_start_date = js ''2024-01-01'', req_end_date = js ''2024-01-14'',
         req_group_by = js ''product_type'', req_metric = js ''sales''\<rparr>]"
  by code_simp

lemma unconfigured_click_status:
  "status_text (step Click_btnLoadSales unconfigured_state) = Loading"
  by code_simp

text \<open>
  C7.  The claim fails on the code: the page opened without a shop parameter issues no
  request at start and reports the missing parameter, but a click on the load button
  then hands \<open>fetch\<close> a request with the empty shop, and the status line shows the load.
\<close>

theorem missing_shop_click_requests:
  "reachable (step Click_btnLoadSales unconfigured_state)
   \<and> shop unconfigured_state = []
   \<and> requests unconfigured_state = []
   \<and> status_text unconfigured_state = Add_shop
   \<and> requests (step Click_btnLoadSales unconfigured_state)
       = [\<lparr>req_shop = [], req_start_date = js ''2024-01-01'', req_end_date = js ''2024-01-14'',
           req_group_by = js ''product_type'', req_metric = js ''sales''\<rparr>]
   \<and> status_text (step Click_btnLoadSales unconfigured_state) = Loading"
  by (rule conjI reachable_unconfigured_click unconfigured_shop unconfigured_requests
      unconfigured_status unconfigured_click_requests unconfigured_click_status)+

end
